theory Spec2Isabelle
  imports Complex_Main "HOL-Library.Word"
begin

section \<open>Python values, exceptions and the library functions the client calls\<close>

text \<open>
  The client is dynamically typed: whatever \<^verbatim>\<open>json.loads\<close> returns flows unchecked into
  \<^verbatim>\<open>Decision\<close>, \<^verbatim>\<open>ExplainResult\<close> and \<^verbatim>\<open>ChitinError\<close>. A Python value is therefore one of
  the shapes JSON decoding produces. A \<^verbatim>\<open>str\<close> is represented by its UTF-8 bytes, so
  \<^verbatim>\<open>s.encode("utf-8")\<close> is the identity and \<^verbatim>\<open>len\<close> of the encoded buffer is the list
  length. A \<^verbatim>\<open>dict\<close> is an association list read with \<open>map_of\<close> (first binding wins).
  Finite floats are over-approximated by the rationals.
\<close>

datatype pyfloat = Finite rat | PosInf | NegInf | NaN

datatype pyval =
    PNone
  | PBool bool
  | PInt int
  | PFloat pyfloat
  | PStr string
  | PList "pyval list"
  | PDict "(string \<times> pyval) list"

text \<open>
  Every \<^verbatim>\<open>raise\<close> is a value. \<open>ChitinError status message\<close> is the client's own exception
  (\<^verbatim>\<open>_types.ChitinError\<close>); its two fields hold whatever the raising site passes.
\<close>

datatype pyerr =
    ChitinError pyval pyval
  | OSError string
  | AttributeError
  | KeyError string
  | TypeError
  | ValueError
  | OverflowError
  | UnicodeDecodeError
  | JSONDecodeError

text \<open>Status codes, as \<^verbatim>\<open>_ffi.py\<close> and \<^verbatim>\<open>_http.py\<close> both declare them.\<close>

definition CHITIN_OK :: int where "CHITIN_OK = 0"
definition CHITIN_ERR_INVALID :: int where "CHITIN_ERR_INVALID = - 1"
definition CHITIN_ERR_DENIED :: int where "CHITIN_ERR_DENIED = - 2"
definition CHITIN_ERR_ESCALATED :: int where "CHITIN_ERR_ESCALATED = - 3"
definition CHITIN_ERR_INTERNAL :: int where "CHITIN_ERR_INTERNAL = - 4"
definition CHITIN_ERR_NOT_FOUND :: int where "CHITIN_ERR_NOT_FOUND = - 5"

subsection \<open>Strict UTF-8 decoding\<close>

definition byte_in :: "nat \<Rightarrow> nat \<Rightarrow> char \<Rightarrow> bool" where
  "byte_in lo hi c = (lo \<le> (of_char c :: nat) \<and> (of_char c :: nat) \<le> hi)"

definition cont_byte :: "char \<Rightarrow> bool" where
  "cont_byte c = byte_in 128 191 c"

text \<open>
  Well-formed UTF-8 byte sequences: no overlong forms, no surrogates, nothing above
  U+10FFFF. This is what \<^verbatim>\<open>bytes.decode("utf-8")\<close> accepts with the default strict error
  handler.
\<close>

fun utf8_valid :: "string \<Rightarrow> bool" where
  "utf8_valid [] = True"
| "utf8_valid (b # bs) =
     (if byte_in 0 127 b then utf8_valid bs
      else if byte_in 194 223 b then
        (case bs of c1 # r \<Rightarrow> cont_byte c1 \<and> utf8_valid r | _ \<Rightarrow> False)
      else if byte_in 224 239 b then
        (case bs of
           c1 # c2 # r \<Rightarrow>
             (if byte_in 224 224 b then byte_in 160 191 c1
              else if byte_in 237 237 b then byte_in 128 159 c1
              else cont_byte c1)
             \<and> cont_byte c2 \<and> utf8_valid r
         | _ \<Rightarrow> False)
      else if byte_in 240 244 b then
        (case bs of
           c1 # c2 # c3 # r \<Rightarrow>
             (if byte_in 240 240 b then byte_in 144 191 c1
              else if byte_in 244 244 b then byte_in 128 143 c1
              else cont_byte c1)
             \<and> cont_byte c2 \<and> cont_byte c3 \<and> utf8_valid r
         | _ \<Rightarrow> False)
      else False)"

text \<open>\<^verbatim>\<open>raw.decode("utf-8")\<close>: \<open>None\<close> stands for \<^verbatim>\<open>UnicodeDecodeError\<close>.\<close>

definition decode_utf8 :: "string \<Rightarrow> string option" where
  "decode_utf8 raw = (if utf8_valid raw then Some raw else None)"

subsection \<open>Operations on Python values\<close>

text \<open>\<^verbatim>\<open>bool(v)\<close>.\<close>

fun py_bool :: "pyval \<Rightarrow> bool" where
  "py_bool PNone = False"
| "py_bool (PBool b) = b"
| "py_bool (PInt n) = (n \<noteq> 0)"
| "py_bool (PFloat (Finite q)) = (q \<noteq> 0)"
| "py_bool (PFloat _) = True"
| "py_bool (PStr s) = (s \<noteq> [])"
| "py_bool (PList xs) = (xs \<noteq> [])"
| "py_bool (PDict kvs) = (kvs \<noteq> [])"

text \<open>\<^verbatim>\<open>v or d\<close>.\<close>

definition py_or :: "pyval \<Rightarrow> pyval \<Rightarrow> pyval" where
  "py_or v d = (if py_bool v then v else d)"

text \<open>\<^verbatim>\<open>v == n\<close> for an integer constant \<open>n\<close>: booleans and floats compare numerically.\<close>

fun py_eq_int :: "pyval \<Rightarrow> int \<Rightarrow> bool" where
  "py_eq_int (PInt m) n = (m = n)"
| "py_eq_int (PBool b) n = ((if b then 1 else 0) = n)"
| "py_eq_int (PFloat (Finite q)) n = (q = of_int n)"
| "py_eq_int _ n = False"

text \<open>
  \<^verbatim>\<open>d.get(k, default)\<close>. Only a \<^verbatim>\<open>dict\<close> has the method; on every other JSON shape the
  attribute lookup raises \<^verbatim>\<open>AttributeError\<close>.
\<close>

fun py_get :: "pyval \<Rightarrow> string \<Rightarrow> pyval \<Rightarrow> pyerr + pyval" where
  "py_get (PDict kvs) k d = Inr (case map_of kvs k of None \<Rightarrow> d | Some v \<Rightarrow> v)"
| "py_get _ k d = Inl AttributeError"

text \<open>\<^verbatim>\<open>d[k]\<close> with a string key.\<close>

fun py_index :: "pyval \<Rightarrow> string \<Rightarrow> pyerr + pyval" where
  "py_index (PDict kvs) k = (case map_of kvs k of None \<Rightarrow> Inl (KeyError k) | Some v \<Rightarrow> Inr v)"
| "py_index _ k = Inl TypeError"

subsection \<open>The world outside the client\<close>

text \<open>
  One call across the C ABI, with its arguments as marshalled: every string argument is a
  (pointer-or-NULL, length) pair, integers have their C width. The engine handle is the
  integer value of the \<^verbatim>\<open>c_void_p\<close>.
\<close>

datatype ccall =
    C_engine_new "string option" nat
  | C_engine_free nat
  | C_ingest nat "string option" nat "32 word" "string option" nat
  | C_propose nat "string option" nat "string option" nat "string option" nat
      "64 word list option" nat
  | C_record_result nat "64 word" "string option" nat "32 word"
  | C_is_traced nat "64 word" "string option" nat
  | C_explain nat "64 word"
  | C_last_error
  | C_free_string string nat
  | C_register_tool nat "string option" nat "string option" nat

text \<open>
  What one C call hands back: the \<^verbatim>\<open>c_int32\<close> return value, and whatever the callee left
  in the out-parameters the caller passed (each starts as zero / NULL). \<open>out_json\<close> is
  \<open>None\<close> for a NULL pointer and otherwise the bytes the pointer addresses; \<open>ret_ptr\<close> is
  the \<^verbatim>\<open>c_void_p\<close> result of \<^verbatim>\<open>chitin_engine_new\<close>.
\<close>

record creply =
  status :: int
  out_id :: "64 word"
  out_result :: "32 word"
  out_json :: "string option"
  out_len :: nat
  ret_ptr :: "nat option"

text \<open>
  A loaded shared library: whether every \<^verbatim>\<open>chitin_*\<close> symbol resolves (attribute lookup
  on a \<^verbatim>\<open>CDLL\<close> raises \<^verbatim>\<open>AttributeError\<close> otherwise), and the engine's answer to each call.
\<close>

record native_lib =
  exports_all :: bool
  ccall_reply :: "ccall \<Rightarrow> creply"

text \<open>
  What \<^verbatim>\<open>urllib.request.urlopen\<close> does with a request: a response whose status and body
  the \<^verbatim>\<open>with\<close> block reads, an \<^verbatim>\<open>HTTPError\<close> (with \<^verbatim>\<open>str(e)\<close> and the body
  \<^verbatim>\<open>e.read()\<close>), or a \<^verbatim>\<open>URLError\<close> (with \<^verbatim>\<open>str(e.reason)\<close>).
\<close>

datatype http_outcome =
    Response int string
  | HTTPError string string
  | URLError string

text \<open>
  Everything the client reads from its surroundings. The library functions whose results
  it consumes are parameters: \<^verbatim>\<open>json.loads\<close> (\<open>None\<close> for \<^verbatim>\<open>JSONDecodeError\<close>),
  \<^verbatim>\<open>json.dumps\<close>, the string case of \<^verbatim>\<open>int()\<close> (\<open>None\<close> for \<^verbatim>\<open>ValueError\<close>), and
  \<^verbatim>\<open>urlopen\<close> as a function of the URL and the request body. \<open>cdll\<close> is the result of
  \<^verbatim>\<open>ctypes.CDLL(resolve_chitin_lib())\<close> (\<open>None\<close> for \<^verbatim>\<open>OSError\<close>) and \<open>sidecar_url\<close>
  the value of \<^verbatim>\<open>os.environ.get("CHITIN_SIDECAR_URL")\<close>. The world is fixed for the
  duration of one client operation.
\<close>

record world =
  json_loads :: "string \<Rightarrow> pyval option"
  json_dumps :: "pyval \<Rightarrow> string"
  int_of_str :: "string \<Rightarrow> int option"
  urlopen :: "string \<Rightarrow> string \<Rightarrow> http_outcome"
  cdll :: "native_lib option"
  sidecar_url :: "string option"

text \<open>The calls an operation makes on a transport, in order.\<close>

datatype event = Native ccall | HttpPost string string

text \<open>\<^verbatim>\<open>int(v)\<close>: floats truncate towards zero.\<close>

fun py_int :: "world \<Rightarrow> pyval \<Rightarrow> pyerr + int" where
  "py_int L (PInt n) = Inr n"
| "py_int L (PBool b) = Inr (if b then 1 else 0)"
| "py_int L (PFloat (Finite q)) = Inr (if 0 \<le> q then \<lfloor>q\<rfloor> else \<lceil>q\<rceil>)"
| "py_int L (PFloat NaN) = Inl ValueError"
| "py_int L (PFloat _) = Inl OverflowError"
| "py_int L (PStr s) = (case int_of_str L s of None \<Rightarrow> Inl ValueError | Some n \<Rightarrow> Inr n)"
| "py_int L _ = Inl TypeError"


section \<open>Public types (\<^verbatim>\<open>_types.py\<close>)\<close>

definition TrustLevel_SYSTEM :: int where "TrustLevel_SYSTEM = 0"
definition TrustLevel_OPERATOR :: int where "TrustLevel_OPERATOR = 1"
definition TrustLevel_USER :: int where "TrustLevel_USER = 2"
definition TrustLevel_EXTERNAL :: int where "TrustLevel_EXTERNAL = 3"
definition TrustLevel_UNKNOWN :: int where "TrustLevel_UNKNOWN = 4"

text \<open>
  The dataclasses do not check their field types, so \<open>outcome\<close>, \<open>rule_id\<close>, \<open>reason\<close> and
  both fields of \<^verbatim>\<open>ExplainResult\<close> hold arbitrary values; \<open>allowed\<close> and \<open>event_id\<close> are always
  built by \<^verbatim>\<open>bool(..)\<close>, \<^verbatim>\<open>int(..)\<close> or a \<^verbatim>\<open>c_uint64\<close> read.
\<close>

record Decision =
  allowed :: bool
  outcome :: pyval
  event_id :: int
  rule_id :: pyval
  reason :: pyval

record ExplainResult =
  explain_text :: pyval
  trace_chain :: pyval

section \<open>Library resolution message (\<^verbatim>\<open>_resolve.py\<close>)\<close>

definition load_lib_error_message :: string where
  "load_lib_error_message =
     ''Could not load the Chitin shared library. Either set CHITIN_LIB_PATH to the full path '' @
     ''to libchitin.so / libchitin.dylib / chitin.dll, install a platform-specific wheel '' @
     ''(chitin_engine_lib-*-manylinux_*.whl, etc.) that bundles the library, or set '' @
     ''CHITIN_SIDECAR_URL to use the HTTP sidecar instead.''"

section \<open>The native adapter (\<^verbatim>\<open>_ffi.py\<close>)\<close>

definition to_buf :: "string option \<Rightarrow> string option \<times> nat" where
  "to_buf s = (case s of None \<Rightarrow> (None, 0) | Some t \<Rightarrow> (Some t, length t))"

text \<open>\<^verbatim>\<open>_load_lib\<close>: a failed \<^verbatim>\<open>CDLL\<close> is re-raised as an \<^verbatim>\<open>OSError\<close> with the long message.\<close>

definition load_lib :: "world \<Rightarrow> pyerr + native_lib" where
  "load_lib w = (case cdll w of None \<Rightarrow> Inl (OSError load_lib_error_message) | Some lib \<Rightarrow> Inr lib)"

text \<open>\<^verbatim>\<open>load_ffi\<close>, that is \<^verbatim>\<open>_ChitinFFI.__init__\<close>: load, then \<^verbatim>\<open>_setup_signatures\<close>.\<close>

definition load_ffi :: "world \<Rightarrow> pyerr + native_lib" where
  "load_ffi w =
     (case load_lib w of
        Inl e \<Rightarrow> Inl e
      | Inr lib \<Rightarrow> if exports_all lib then Inr lib else Inl AttributeError)"

text \<open>\<^verbatim>\<open>ctypes.string_at(ptr, size)\<close>: the first \<open>size\<close> bytes at the pointer.\<close>

definition string_at :: "string \<Rightarrow> nat \<Rightarrow> string" where
  "string_at p n = take n p"

text \<open>
  \<^verbatim>\<open>_last_error\<close>. The early return makes no free call; past it, the \<^verbatim>\<open>finally\<close> clause
  makes one whether or not the decode raised.
\<close>

definition ffi_last_error :: "native_lib \<Rightarrow> (pyerr + string) \<times> event list" where
  "ffi_last_error lib =
     (let r = ccall_reply lib C_last_error in
      if status r = CHITIN_ERR_NOT_FOUND \<or> out_json r = None
      then (Inr ''unknown error'', [Native C_last_error])
      else (case out_json r of
              None \<Rightarrow> (Inr ''unknown error'', [Native C_last_error])
            | Some p \<Rightarrow>
                ((case decode_utf8 (string_at p (out_len r)) of
                    None \<Rightarrow> Inl UnicodeDecodeError
                  | Some t \<Rightarrow> Inr t),
                 [Native C_last_error, Native (C_free_string p (out_len r))])))"

text \<open>
  The statement \<^verbatim>\<open>raise ChitinError(st, self._last_error())\<close>: the argument is evaluated
  first, so a failing fetch raises its own exception instead.
\<close>

definition raise_with_last_error :: "native_lib \<Rightarrow> int \<Rightarrow> pyerr \<times> event list" where
  "raise_with_last_error lib st =
     (case ffi_last_error lib of
        (Inl e, tr) \<Rightarrow> (e, tr)
      | (Inr m, tr) \<Rightarrow> (ChitinError (PInt st) (PStr m), tr))"

definition ffi_engine_new :: "native_lib \<Rightarrow> string option \<Rightarrow> (pyerr + nat) \<times> event list" where
  "ffi_engine_new lib config_path =
     (let (path_buf, path_len) = to_buf config_path;
          call = C_engine_new path_buf path_len
      in case ret_ptr (ccall_reply lib call) of
           None \<Rightarrow>
             (let (e, tr) = raise_with_last_error lib CHITIN_ERR_INTERNAL
              in (Inl e, Native call # tr))
         | Some engine \<Rightarrow> (Inr engine, [Native call]))"

definition ffi_engine_free :: "native_lib \<Rightarrow> nat \<Rightarrow> event list" where
  "ffi_engine_free lib engine = [Native (C_engine_free engine)]"

text \<open>
  The argument marshalling of each operation is kept apart from the handling of the
  reply, so that the call an operation makes can be named.
\<close>

definition ingest_call :: "world \<Rightarrow> nat \<Rightarrow> string \<Rightarrow> int \<Rightarrow> pyval option \<Rightarrow> ccall" where
  "ingest_call w engine content trust_level metadata =
     (let (content_buf, content_len) = to_buf (Some content);
          (meta_buf, meta_len) =
             (case metadata of
                None \<Rightarrow> (None, 0)
              | Some m \<Rightarrow> to_buf (Some (json_dumps w m)))
      in C_ingest engine content_buf content_len (word_of_int trust_level) meta_buf meta_len)"

definition ffi_ingest ::
  "world \<Rightarrow> native_lib \<Rightarrow> nat \<Rightarrow> string \<Rightarrow> int \<Rightarrow> pyval option \<Rightarrow> (pyerr + int) \<times> event list" where
  "ffi_ingest w lib engine content trust_level metadata =
     (let call = ingest_call w engine content trust_level metadata;
          r = ccall_reply lib call;
          st = status r
      in if st \<noteq> CHITIN_OK
         then (let (e, tr) = raise_with_last_error lib st in (Inl e, Native call # tr))
         else (Inr (uint (out_id r)), [Native call]))"

text \<open>
  \<^verbatim>\<open>propose\<close>. \<^verbatim>\<open>if input_sources:\<close> is false for \<^verbatim>\<open>None\<close> and for the empty list alike.
  The \<^verbatim>\<open>try\<close> covers \<^verbatim>\<open>json.loads\<close> and both \<^verbatim>\<open>obj.get\<close> calls, not the last-error fetch
  before it.
\<close>

definition propose_call ::
  "nat \<Rightarrow> string \<Rightarrow> string \<Rightarrow> string option \<Rightarrow> int list option \<Rightarrow> ccall" where
  "propose_call engine tool params agent_id input_sources =
     (let (tool_buf, tool_len) = to_buf (Some tool);
          (params_buf, params_len) = to_buf (Some params);
          (agent_buf, agent_len) = to_buf agent_id;
          (sources_arr, sources_len) =
             (case input_sources of
                None \<Rightarrow> (None, 0)
              | Some xs \<Rightarrow> if xs = [] then (None, 0) else (Some (map word_of_int xs), length xs))
      in C_propose engine tool_buf tool_len params_buf params_len agent_buf agent_len
           sources_arr sources_len)"

definition ffi_propose ::
  "world \<Rightarrow> native_lib \<Rightarrow> nat \<Rightarrow> string \<Rightarrow> string \<Rightarrow> string option \<Rightarrow> int list option
     \<Rightarrow> (pyerr + Decision) \<times> event list" where
  "ffi_propose w lib engine tool params agent_id input_sources =
     (let call = propose_call engine tool params agent_id input_sources;
          r = ccall_reply lib call;
          st = status r
      in if st = CHITIN_OK
         then (Inr \<lparr>allowed = True, outcome = PStr ''allow'', event_id = uint (out_id r),
                     rule_id = PNone, reason = PNone\<rparr>, [Native call])
         else if st = CHITIN_ERR_DENIED \<or> st = CHITIN_ERR_ESCALATED
         then (case ffi_last_error lib of
                 (Inl e, tr) \<Rightarrow> (Inl e, Native call # tr)
               | (Inr err_json, tr) \<Rightarrow>
                   (let fallback = (PNone, PStr err_json);
                        (rule, rsn) =
                          (case json_loads w err_json of
                             None \<Rightarrow> fallback
                           | Some obj \<Rightarrow>
                               (case py_get obj ''rule_id'' PNone of
                                  Inl _ \<Rightarrow> fallback
                                | Inr rid \<Rightarrow>
                                    (case py_get obj ''reason'' (PStr []) of
                                       Inl _ \<Rightarrow> fallback
                                     | Inr rs \<Rightarrow> (rid, rs))));
                        oc = (if st = CHITIN_ERR_DENIED then ''deny'' else ''escalate'')
                    in (Inr \<lparr>allowed = False, outcome = PStr oc, event_id = uint (out_id r),
                              rule_id = rule, reason = rsn\<rparr>, Native call # tr)))
         else (let (e, tr) = raise_with_last_error lib st in (Inl e, Native call # tr)))"

definition record_result_call :: "nat \<Rightarrow> int \<Rightarrow> string \<Rightarrow> int \<Rightarrow> ccall" where
  "record_result_call engine tool_call_id output exit_code =
     (let (out_buf, out_len') = to_buf (Some output)
      in C_record_result engine (word_of_int tool_call_id) out_buf out_len'
           (word_of_int exit_code))"

definition ffi_record_result ::
  "native_lib \<Rightarrow> nat \<Rightarrow> int \<Rightarrow> string \<Rightarrow> int \<Rightarrow> (pyerr + int) \<times> event list" where
  "ffi_record_result lib engine tool_call_id output exit_code =
     (let call = record_result_call engine tool_call_id output exit_code;
          r = ccall_reply lib call;
          st = status r
      in if st \<noteq> CHITIN_OK
         then (let (e, tr) = raise_with_last_error lib st in (Inl e, Native call # tr))
         else (Inr (uint (out_id r)), [Native call]))"

definition is_traced_call :: "nat \<Rightarrow> int \<Rightarrow> string \<Rightarrow> ccall" where
  "is_traced_call engine ev label =
     (let (label_buf, label_len) = to_buf (Some label)
      in C_is_traced engine (word_of_int ev) label_buf label_len)"

definition ffi_is_traced ::
  "native_lib \<Rightarrow> nat \<Rightarrow> int \<Rightarrow> string \<Rightarrow> (pyerr + bool) \<times> event list" where
  "ffi_is_traced lib engine ev label =
     (let call = is_traced_call engine ev label;
          r = ccall_reply lib call;
          st = status r
      in if st \<noteq> CHITIN_OK
         then (let (e, tr) = raise_with_last_error lib st in (Inl e, Native call # tr))
         else (Inr (out_result r \<noteq> 0), [Native call]))"

text \<open>
  \<^verbatim>\<open>explain\<close>. A NULL pointer or a zero length returns the empty result before the
  \<^verbatim>\<open>try\<close>/\<^verbatim>\<open>finally\<close> that frees the buffer is entered.
\<close>

definition explain_call :: "nat \<Rightarrow> int \<Rightarrow> ccall" where
  "explain_call engine ev = C_explain engine (word_of_int ev)"

definition ffi_explain ::
  "world \<Rightarrow> native_lib \<Rightarrow> nat \<Rightarrow> int \<Rightarrow> (pyerr + ExplainResult) \<times> event list" where
  "ffi_explain w lib engine ev =
     (let call = explain_call engine ev;
          r = ccall_reply lib call;
          st = status r
      in if st \<noteq> CHITIN_OK
         then (let (e, tr) = raise_with_last_error lib st in (Inl e, Native call # tr))
         else if out_json r = None \<or> out_len r = 0
         then (Inr \<lparr>explain_text = PStr [], trace_chain = PList []\<rparr>, [Native call])
         else (case out_json r of
                 None \<Rightarrow> (Inr \<lparr>explain_text = PStr [], trace_chain = PList []\<rparr>, [Native call])
               | Some p \<Rightarrow>
                   ((case decode_utf8 (string_at p (out_len r)) of
                       None \<Rightarrow> Inl UnicodeDecodeError
                     | Some t \<Rightarrow>
                         (let fallback = \<lparr>explain_text = PStr t, trace_chain = PList []\<rparr>
                          in Inr (case json_loads w t of
                                    None \<Rightarrow> fallback
                                  | Some obj \<Rightarrow>
                                      (case py_get obj ''text'' (PStr []) of
                                         Inl _ \<Rightarrow> fallback
                                       | Inr tx \<Rightarrow>
                                           (case py_get obj ''trace_chain'' (PList []) of
                                              Inl _ \<Rightarrow> fallback
                                            | Inr ch \<Rightarrow>
                                                \<lparr>explain_text = tx, trace_chain = ch\<rparr>))))),
                    [Native call, Native (C_free_string p (out_len r))])))"

definition register_tool_call :: "world \<Rightarrow> nat \<Rightarrow> string \<Rightarrow> string \<Rightarrow> string option \<Rightarrow> ccall" where
  "register_tool_call w engine name risk category =
     (let config = PDict ([(''risk'', PStr risk)] @
                          (case category of None \<Rightarrow> [] | Some c \<Rightarrow> [(''category'', PStr c)]));
          config_json = json_dumps w config;
          (name_buf, name_len) = to_buf (Some name);
          (config_buf, config_len) = to_buf (Some config_json)
      in C_register_tool engine name_buf name_len config_buf config_len)"

definition ffi_register_tool ::
  "world \<Rightarrow> native_lib \<Rightarrow> nat \<Rightarrow> string \<Rightarrow> string \<Rightarrow> string option \<Rightarrow> (pyerr + unit) \<times> event list" where
  "ffi_register_tool w lib engine name risk category =
     (let call = register_tool_call w engine name risk category;
          st = status (ccall_reply lib call)
      in if st \<noteq> CHITIN_OK
         then (let (e, tr) = raise_with_last_error lib st in (Inl e, Native call # tr))
         else (Inr (), [Native call]))"


section \<open>The RPC adapter (\<^verbatim>\<open>_http.py\<close>)\<close>

text \<open>Sequencing of two steps of which the first may raise.\<close>

definition then_do :: "pyerr + 'a \<Rightarrow> ('a \<Rightarrow> pyerr + 'b) \<Rightarrow> pyerr + 'b" where
  "then_do r f = (case r of Inl e \<Rightarrow> Inl e | Inr v \<Rightarrow> f v)"

text \<open>\<^verbatim>\<open>base_url.rstrip("/")\<close>, the constructor of \<^verbatim>\<open>_ChitinHTTP\<close>.\<close>

definition http_init :: "string \<Rightarrow> string" where
  "http_init base_url = rev (dropWhile (\<lambda>c. c = CHR ''/'') (rev base_url))"

text \<open>
  \<^verbatim>\<open>_post\<close>. On the success path a decode or parse failure is not caught. On the
  \<^verbatim>\<open>HTTPError\<close> path the \<^verbatim>\<open>try\<close> covers only the decoding of the body; the two
  \<^verbatim>\<open>payload.get\<close> calls follow it.
\<close>

definition exchange :: "world \<Rightarrow> string \<Rightarrow> string \<Rightarrow> pyval \<Rightarrow> http_outcome" where
  "exchange w base path body = urlopen w (base @ path) (json_dumps w body)"

definition http_post :: "world \<Rightarrow> string \<Rightarrow> string \<Rightarrow> pyval \<Rightarrow> (pyerr + pyval) \<times> event list" where
  "http_post w base path body =
     (let url = base @ path;
          data = json_dumps w body
      in ((case exchange w base path body of
             Response st raw \<Rightarrow>
               if st = 204 \<or> raw = [] then Inr (PDict [])
               else (case decode_utf8 raw of
                       None \<Rightarrow> Inl UnicodeDecodeError
                     | Some t \<Rightarrow>
                         (case json_loads w t of
                            None \<Rightarrow> Inl JSONDecodeError
                          | Some v \<Rightarrow> Inr v))
           | HTTPError str_e err_body \<Rightarrow>
               (let payload =
                      (case decode_utf8 err_body of
                         None \<Rightarrow> PDict []
                       | Some t \<Rightarrow> (case json_loads w t of None \<Rightarrow> PDict [] | Some v \<Rightarrow> v))
                in then_do (py_get payload ''status'' (PInt CHITIN_ERR_INTERNAL)) (\<lambda>st.
                   then_do (py_get payload ''error'' (PStr str_e)) (\<lambda>msg.
                   Inl (ChitinError st msg))))
           | URLError rsn \<Rightarrow> Inl (ChitinError (PInt CHITIN_ERR_INTERNAL) (PStr rsn))),
          [HttpPost url data]))"

text \<open>
  The pattern shared by \<^verbatim>\<open>ingest\<close>, \<^verbatim>\<open>record_result\<close> and \<^verbatim>\<open>explain\<close>:
  \<^verbatim>\<open>status = out.get("status", CHITIN_OK)\<close>, then raise unless it equals \<^verbatim>\<open>CHITIN_OK\<close>.
\<close>

definition check_status :: "pyval \<Rightarrow> string \<Rightarrow> pyerr + unit" where
  "check_status out dflt =
     then_do (py_get out ''status'' (PInt CHITIN_OK)) (\<lambda>st.
       if \<not> py_eq_int st CHITIN_OK
       then then_do (py_get out ''error'' (PStr dflt)) (\<lambda>msg. Inl (ChitinError st msg))
       else Inr ())"

definition ingest_body :: "string \<Rightarrow> int \<Rightarrow> pyval option \<Rightarrow> pyval" where
  "ingest_body content trust_level metadata =
     PDict ([(''content'', PStr content), (''trust'', PInt trust_level)] @
            (case metadata of None \<Rightarrow> [] | Some m \<Rightarrow> [(''metadata'', m)]))"

definition http_ingest ::
  "world \<Rightarrow> string \<Rightarrow> string \<Rightarrow> int \<Rightarrow> pyval option \<Rightarrow> (pyerr + int) \<times> event list" where
  "http_ingest w base content trust_level metadata =
     (let body = ingest_body content trust_level metadata;
          (res, tr) = http_post w base ''/ingest'' body
      in (then_do res (\<lambda>out.
          then_do (check_status out ''ingest failed'') (\<lambda>_.
          then_do (py_index out ''event_id'') (py_int w))), tr))"

text \<open>
  \<^verbatim>\<open>propose\<close> reads the verdict from the body and never looks at a status code. The
  keyword arguments of \<^verbatim>\<open>Decision(..)\<close> are evaluated in the order written.
\<close>

definition propose_body :: "string \<Rightarrow> string \<Rightarrow> string option \<Rightarrow> int list option \<Rightarrow> pyval" where
  "propose_body tool params agent_id input_sources =
     PDict ([(''tool'', PStr tool), (''params'', PStr params)] @
            (case agent_id of None \<Rightarrow> [] | Some a \<Rightarrow> [(''agent_id'', PStr a)]) @
            (case input_sources of
               None \<Rightarrow> []
             | Some xs \<Rightarrow> [(''input_sources'', PList (map PInt xs))]))"

definition http_propose ::
  "world \<Rightarrow> string \<Rightarrow> string \<Rightarrow> string \<Rightarrow> string option \<Rightarrow> int list option
     \<Rightarrow> (pyerr + Decision) \<times> event list" where
  "http_propose w base tool params agent_id input_sources =
     (let body = propose_body tool params agent_id input_sources;
          (res, tr) = http_post w base ''/propose'' body
      in (then_do res (\<lambda>out.
          then_do (py_get out ''allowed'' (PBool False)) (\<lambda>al.
          then_do (py_get out ''outcome'' (PStr ''deny'')) (\<lambda>oc.
          then_do (py_index out ''event_id'') (\<lambda>ev.
          then_do (py_int w ev) (\<lambda>n.
          then_do (py_get out ''rule_id'' PNone) (\<lambda>rid.
          then_do (py_get out ''reason'' PNone) (\<lambda>rs.
          Inr \<lparr>allowed = py_bool al, outcome = oc, event_id = n,
                rule_id = rid, reason = rs\<rparr>))))))), tr))"

definition record_result_body :: "int \<Rightarrow> string \<Rightarrow> int \<Rightarrow> pyval" where
  "record_result_body tool_call_id output exit_code =
     PDict [(''tool_call_id'', PInt tool_call_id), (''output'', PStr output),
            (''exit_code'', PInt exit_code)]"

definition http_record_result ::
  "world \<Rightarrow> string \<Rightarrow> int \<Rightarrow> string \<Rightarrow> int \<Rightarrow> (pyerr + int) \<times> event list" where
  "http_record_result w base tool_call_id output exit_code =
     (let body = record_result_body tool_call_id output exit_code;
          (res, tr) = http_post w base ''/record_result'' body
      in (then_do res (\<lambda>out.
          then_do (check_status out ''record_result failed'') (\<lambda>_.
          then_do (py_index out ''event_id'') (py_int w))), tr))"

text \<open>
  \<^verbatim>\<open>is_traced\<close> compares \<^verbatim>\<open>out.get("status")\<close>, with no default, against \<^verbatim>\<open>CHITIN_OK\<close>;
  the default \<^verbatim>\<open>CHITIN_ERR_INTERNAL\<close> is used only for the status of the raised error.
\<close>

definition is_traced_body :: "int \<Rightarrow> string \<Rightarrow> pyval" where
  "is_traced_body ev label = PDict [(''event_id'', PInt ev), (''label'', PStr label)]"

definition http_is_traced ::
  "world \<Rightarrow> string \<Rightarrow> int \<Rightarrow> string \<Rightarrow> (pyerr + bool) \<times> event list" where
  "http_is_traced w base ev label =
     (let body = is_traced_body ev label;
          (res, tr) = http_post w base ''/is_traced'' body
      in (then_do res (\<lambda>out.
          then_do (py_get out ''status'' PNone) (\<lambda>st.
            if \<not> py_eq_int st CHITIN_OK
            then then_do (py_get out ''status'' (PInt CHITIN_ERR_INTERNAL)) (\<lambda>st'.
                 then_do (py_get out ''error'' (PStr ''is_traced failed'')) (\<lambda>msg.
                 Inl (ChitinError st' msg)))
            else then_do (py_get out ''traced'' (PBool False)) (\<lambda>t. Inr (py_bool t)))), tr))"

definition explain_body :: "int \<Rightarrow> pyval" where
  "explain_body ev = PDict [(''event_id'', PInt ev)]"

definition http_explain ::
  "world \<Rightarrow> string \<Rightarrow> int \<Rightarrow> (pyerr + ExplainResult) \<times> event list" where
  "http_explain w base ev =
     (let body = explain_body ev;
          (res, tr) = http_post w base ''/explain'' body
      in (then_do res (\<lambda>out.
          then_do (check_status out ''explain failed'') (\<lambda>_.
          then_do (py_get out ''text'' PNone) (\<lambda>tx.
          then_do (py_get out ''trace_chain'' PNone) (\<lambda>ch.
          Inr \<lparr>explain_text = py_or tx (PStr []), trace_chain = py_or ch (PList [])\<rparr>)))), tr))"

text \<open>\<^verbatim>\<open>register_tool\<close> discards what \<^verbatim>\<open>_post\<close> returns.\<close>

definition register_tool_body :: "string \<Rightarrow> string \<Rightarrow> string option \<Rightarrow> pyval" where
  "register_tool_body name risk category =
     PDict ([(''tool_name'', PStr name), (''risk'', PStr risk)] @
            (case category of None \<Rightarrow> [] | Some c \<Rightarrow> [(''category'', PStr c)]))"

definition http_register_tool ::
  "world \<Rightarrow> string \<Rightarrow> string \<Rightarrow> string \<Rightarrow> string option \<Rightarrow> (pyerr + unit) \<times> event list" where
  "http_register_tool w base name risk category =
     (let body = register_tool_body name risk category;
          (res, tr) = http_post w base ''/register_tool'' body
      in (then_do res (\<lambda>_. Inr ()), tr))"

section \<open>The session (\<^verbatim>\<open>_engine.py\<close>)\<close>

record Engine =
  backend :: string
  ffi :: "native_lib option"
  handle :: "nat option"
  http :: "string option"

definition engine_unavailable_message :: string where
  "engine_unavailable_message =
     ''Chitin engine unavailable: native library failed to load and CHITIN_SIDECAR_URL is not set.''"

definition engine_closed_error :: pyerr where
  "engine_closed_error = ChitinError (PInt (- 1)) (PStr ''Engine is closed'')"

text \<open>The classes named by \<^verbatim>\<open>except (ChitinError, OSError)\<close>.\<close>

fun caught_by_fallback :: "pyerr \<Rightarrow> bool" where
  "caught_by_fallback (ChitinError s m) = True"
| "caught_by_fallback (OSError m) = True"
| "caught_by_fallback _ = False"

text \<open>The body of the first \<^verbatim>\<open>try\<close> of \<^verbatim>\<open>Engine.__init__\<close>.\<close>

definition try_ffi :: "world \<Rightarrow> string option \<Rightarrow> (pyerr + native_lib \<times> nat) \<times> event list" where
  "try_ffi w config_path =
     (case load_ffi w of
        Inl e \<Rightarrow> (Inl e, [])
      | Inr lib \<Rightarrow>
          (case ffi_engine_new lib config_path of
             (Inl e, tr) \<Rightarrow> (Inl e, tr)
           | (Inr h, tr) \<Rightarrow> (Inr (lib, h), tr)))"

text \<open>
  \<^verbatim>\<open>Engine.__init__\<close>. An exception of the native attempt that the \<^verbatim>\<open>except\<close> clause does
  not name leaves the constructor; \<^verbatim>\<open>if url:\<close> is false for an unset and for an empty
  variable.
\<close>

definition engine_init :: "world \<Rightarrow> string option \<Rightarrow> (pyerr + Engine) \<times> event list" where
  "engine_init w config_path =
     (case try_ffi w config_path of
        (Inr (lib, h), tr) \<Rightarrow>
          (Inr \<lparr>backend = ''ffi'', ffi = Some lib, handle = Some h, http = None\<rparr>, tr)
      | (Inl e, tr) \<Rightarrow>
          if caught_by_fallback e
          then (case sidecar_url w of
                  None \<Rightarrow> (Inl (ChitinError (PInt (- 1)) (PStr engine_unavailable_message)), tr)
                | Some url \<Rightarrow>
                    if url \<noteq> []
                    then (Inr \<lparr>backend = ''http'', ffi = None, handle = None,
                                http = Some (http_init url)\<rparr>, tr)
                    else (Inl (ChitinError (PInt (- 1)) (PStr engine_unavailable_message)), tr))
          else (Inl e, tr))"

text \<open>
  Dispatch. \<^verbatim>\<open>_ensure_open\<close> comes first in every operation. In a session whose backend
  field names a transport the matching adapter object is present; were it \<^verbatim>\<open>None\<close>, the
  method lookup would raise \<^verbatim>\<open>AttributeError\<close>. A \<^verbatim>\<open>None\<close> handle is marshalled as NULL.
\<close>

definition ensure_open :: "Engine \<Rightarrow> pyerr + unit" where
  "ensure_open e = (if backend e = ''none'' then Inl engine_closed_error else Inr ())"

definition dispatch ::
  "Engine \<Rightarrow> (native_lib \<Rightarrow> nat \<Rightarrow> (pyerr + 'a) \<times> event list)
     \<Rightarrow> (string \<Rightarrow> (pyerr + 'a) \<times> event list) \<Rightarrow> (pyerr + 'a) \<times> event list" where
  "dispatch e via_ffi via_http =
     (case ensure_open e of
        Inl err \<Rightarrow> (Inl err, [])
      | Inr _ \<Rightarrow>
          if backend e = ''ffi''
          then (case ffi e of
                  None \<Rightarrow> (Inl AttributeError, [])
                | Some lib \<Rightarrow> via_ffi lib (case handle e of None \<Rightarrow> 0 | Some h \<Rightarrow> h))
          else (case http e of
                  None \<Rightarrow> (Inl AttributeError, [])
                | Some base \<Rightarrow> via_http base))"

definition engine_ingest ::
  "world \<Rightarrow> Engine \<Rightarrow> string \<Rightarrow> int \<Rightarrow> pyval option \<Rightarrow> (pyerr + int) \<times> event list" where
  "engine_ingest w e content trust_level metadata =
     dispatch e (\<lambda>lib h. ffi_ingest w lib h content trust_level metadata)
                (\<lambda>base. http_ingest w base content trust_level metadata)"

definition engine_propose ::
  "world \<Rightarrow> Engine \<Rightarrow> string \<Rightarrow> string \<Rightarrow> string option \<Rightarrow> int list option
     \<Rightarrow> (pyerr + Decision) \<times> event list" where
  "engine_propose w e tool params agent_id input_sources =
     dispatch e (\<lambda>lib h. ffi_propose w lib h tool params agent_id input_sources)
                (\<lambda>base. http_propose w base tool params agent_id input_sources)"

definition engine_record_result ::
  "world \<Rightarrow> Engine \<Rightarrow> int \<Rightarrow> string \<Rightarrow> int \<Rightarrow> (pyerr + int) \<times> event list" where
  "engine_record_result w e tool_call_id output exit_code =
     dispatch e (\<lambda>lib h. ffi_record_result lib h tool_call_id output exit_code)
                (\<lambda>base. http_record_result w base tool_call_id output exit_code)"

definition engine_is_traced ::
  "world \<Rightarrow> Engine \<Rightarrow> int \<Rightarrow> string \<Rightarrow> (pyerr + bool) \<times> event list" where
  "engine_is_traced w e ev label =
     dispatch e (\<lambda>lib h. ffi_is_traced lib h ev label)
                (\<lambda>base. http_is_traced w base ev label)"

text \<open>
  \<^verbatim>\<open>set_label\<close> calls a method \<^verbatim>\<open>set_label\<close> on the adapter; neither \<^verbatim>\<open>_ChitinFFI\<close> nor
  \<^verbatim>\<open>_ChitinHTTP\<close> defines one, so on an open session the attribute lookup raises.
\<close>

definition engine_set_label ::
  "world \<Rightarrow> Engine \<Rightarrow> int \<Rightarrow> string \<Rightarrow> (pyerr + unit) \<times> event list" where
  "engine_set_label w e ev label =
     dispatch e (\<lambda>lib h. (Inl AttributeError, [])) (\<lambda>base. (Inl AttributeError, []))"

definition engine_explain ::
  "world \<Rightarrow> Engine \<Rightarrow> int \<Rightarrow> (pyerr + ExplainResult) \<times> event list" where
  "engine_explain w e ev =
     dispatch e (\<lambda>lib h. ffi_explain w lib h ev) (\<lambda>base. http_explain w base ev)"

definition engine_register_tool ::
  "world \<Rightarrow> Engine \<Rightarrow> string \<Rightarrow> string \<Rightarrow> string option \<Rightarrow> (pyerr + unit) \<times> event list" where
  "engine_register_tool w e name risk category =
     dispatch e (\<lambda>lib h. ffi_register_tool w lib h name risk category)
                (\<lambda>base. http_register_tool w base name risk category)"

text \<open>
  \<^verbatim>\<open>close\<close>: the native instance is freed if there is one, then the session is marked
  closed. The result is the session after the call and the calls made.
\<close>

definition engine_close :: "Engine \<Rightarrow> (pyerr + Engine) \<times> event list" where
  "engine_close e =
     (let closed = \<lambda>h. \<lparr>backend = ''none'', ffi = None, handle = h, http = None\<rparr>
      in if backend e = ''ffi'' \<and> handle e \<noteq> None
         then (case ffi e of
                 None \<Rightarrow> (Inl AttributeError, [])
               | Some lib \<Rightarrow>
                   (Inr (closed None),
                    ffi_engine_free lib (case handle e of None \<Rightarrow> 0 | Some h \<Rightarrow> h)))
         else (Inr (closed (handle e)), []))"


section \<open>Concrete engines and sidecars\<close>

text \<open>
  A library that answers \<^verbatim>\<open>chitin_last_error\<close> with one reply and every other call with
  another.
\<close>

definition scripted_lib :: "creply \<Rightarrow> creply \<Rightarrow> native_lib" where
  "scripted_lib main err =
     \<lparr>exports_all = True,
      ccall_reply = (\<lambda>c. case c of C_last_error \<Rightarrow> err | _ \<Rightarrow> main)\<rparr>"

definition reply_status :: "int \<Rightarrow> 64 word \<Rightarrow> creply" where
  "reply_status st ev =
     \<lparr>status = st, out_id = ev, out_result = 0, out_json = None, out_len = 0, ret_ptr = None\<rparr>"

definition reply_buffer :: "int \<Rightarrow> string \<Rightarrow> nat \<Rightarrow> creply" where
  "reply_buffer st p n =
     \<lparr>status = st, out_id = 0, out_result = 0, out_json = Some p, out_len = n, ret_ptr = None\<rparr>"

text \<open>
  \<^verbatim>\<open>int()\<close> on a plain decimal literal: an optional sign and ASCII digits. Python accepts
  more (surrounding whitespace, underscores between digits, other Unicode digits); none
  of that occurs below.
\<close>

fun decimal_digits :: "string \<Rightarrow> int \<Rightarrow> int option" where
  "decimal_digits [] acc = Some acc"
| "decimal_digits (c # cs) acc =
     (if byte_in 48 57 c then decimal_digits cs (10 * acc + (int (of_char c) - 48)) else None)"

definition decimal_int :: "string \<Rightarrow> int option" where
  "decimal_int s =
     (case s of
        [] \<Rightarrow> None
      | c # cs \<Rightarrow>
          if c = CHR ''-'' then (if cs = [] then None else map_option uminus (decimal_digits cs 0))
          else if c = CHR ''+'' then (if cs = [] then None else decimal_digits cs 0)
          else decimal_digits s 0)"

text \<open>
  A world whose \<^verbatim>\<open>json.loads\<close> knows the listed texts (every other text is rejected),
  whose \<^verbatim>\<open>json.dumps\<close> knows the listed values, and whose \<^verbatim>\<open>urlopen\<close> has one outcome.
\<close>

definition scripted_world ::
  "(string \<times> pyval) list \<Rightarrow> (pyval \<times> string) list \<Rightarrow> http_outcome \<Rightarrow> native_lib option
     \<Rightarrow> string option \<Rightarrow> world" where
  "scripted_world parses prints resp lib url =
     \<lparr>json_loads = map_of parses,
      json_dumps = (\<lambda>v. case map_of prints v of None \<Rightarrow> ''null'' | Some t \<Rightarrow> t),
      int_of_str = decimal_int,
      urlopen = (\<lambda>u d. resp),
      cdll = lib,
      sidecar_url = url\<rparr>"

text \<open>The request bodies and the tool configuration used below, as \<^verbatim>\<open>json.dumps\<close> prints them.\<close>

definition known_values :: "(pyval \<times> string) list" where
  \<open>known_values =
     [(PDict [(''tool'', PStr ''noop''), (''params'', PStr ''{}''),
              (''input_sources'', PList [PInt 1])],
       ''{"tool": "noop", "params": "{}", "input_sources": [1]}''),
      (PDict [(''content'', PStr ''hi''), (''trust'', PInt 2)],
       ''{"content": "hi", "trust": 2}''),
      (PDict [(''tool_call_id'', PInt 7), (''output'', PStr ''ok''), (''exit_code'', PInt 0)],
       ''{"tool_call_id": 7, "output": "ok", "exit_code": 0}''),
      (PDict [(''event_id'', PInt 7), (''label'', PStr ''pii'')],
       ''{"event_id": 7, "label": "pii"}''),
      (PDict [(''event_id'', PInt 7)], ''{"event_id": 7}''),
      (PDict [(''tool_name'', PStr ''noop''), (''risk'', PStr ''high'')],
       ''{"tool_name": "noop", "risk": "high"}''),
      (PDict [(''risk'', PStr ''high'')], ''{"risk": "high"}'')]\<close>

definition plain_world :: world where
  "plain_world = scripted_world [] known_values (URLError ''Connection refused'') None None"

definition idle_lib :: native_lib where
  "idle_lib = scripted_lib (reply_status 0 0) (reply_status CHITIN_ERR_NOT_FOUND 0)"

definition open_ffi_session :: "native_lib \<Rightarrow> Engine" where
  "open_ffi_session lib = \<lparr>backend = ''ffi'', ffi = Some lib, handle = Some 1, http = None\<rparr>"

definition open_http_session :: Engine where
  "open_http_session =
     \<lparr>backend = ''http'', ffi = None, handle = None, http = Some ''http://127.0.0.1:8080''\<rparr>"

definition closed_session :: Engine where
  "closed_session = \<lparr>backend = ''none'', ffi = None, handle = None, http = None\<rparr>"

text \<open>
  Texts the engine may hand back, with what \<^verbatim>\<open>json.loads\<close> makes of them: a last error
  that names a rule but no reason, one that names both, a sidecar's verdict body that
  carries the same fields as the first, a sidecar body that reports a denial the way the
  other operations report errors, and a result body without a status entry.
\<close>

definition no_reason_error :: string where
  \<open>no_reason_error = ''{"rule_id": "r1"}''\<close>

definition full_error :: string where
  \<open>full_error = ''{"rule_id": "r1", "reason": "blocked"}''\<close>

definition deny_body :: string where
  \<open>deny_body =
     ''{"status": -2, "allowed": false, "outcome": "deny", "event_id": 7, "rule_id": "r1"}''\<close>

definition denied_body :: string where
  \<open>denied_body = ''{"status": -2, "error": "denied"}''\<close>

definition unstatused_body :: string where
  \<open>unstatused_body = ''{"event_id": 5, "traced": true, "text": "t"}''\<close>

definition known_texts :: "(string \<times> pyval) list" where
  "known_texts =
     [(no_reason_error, PDict [(''rule_id'', PStr ''r1'')]),
      (full_error, PDict [(''rule_id'', PStr ''r1''), (''reason'', PStr ''blocked'')]),
      (deny_body, PDict [(''status'', PInt (- 2)), (''allowed'', PBool False),
                         (''outcome'', PStr ''deny''), (''event_id'', PInt 7),
                         (''rule_id'', PStr ''r1'')]),
      (denied_body, PDict [(''status'', PInt (- 2)), (''error'', PStr ''denied'')]),
      (unstatused_body, PDict [(''event_id'', PInt 5), (''traced'', PBool True),
                               (''text'', PStr ''t'')]),
      (''[]'', PList [])]"

text \<open>
  An engine that answers every call with status \<open>st\<close> and event id 7, and whose last
  error is the buffer \<open>err\<close>.
\<close>

definition verdict_lib :: "int \<Rightarrow> string \<Rightarrow> native_lib" where
  "verdict_lib st err = scripted_lib (reply_status st 7) (reply_buffer 0 err (length err))"

text \<open>A sidecar that answers every request with the given status and body.\<close>

definition response_world :: "int \<Rightarrow> string \<Rightarrow> world" where
  "response_world st raw = scripted_world known_texts known_values (Response st raw) None None"

definition verdict_world :: world where
  "verdict_world = scripted_world known_texts known_values (Response 200 deny_body) None None"

definition sidecar_base :: string where
  "sidecar_base = ''http://127.0.0.1:8080''"

text \<open>
  The hypothesis of transport invariance, written from the claim's words (``same status
  code / response fields''), not from the code. A verdict is a status code \<open>st\<close>, an
  event id \<open>ev\<close> and the structured fields \<open>flds\<close> that accompany a denial. The native
  engine reports it through the call's status and out-parameter and, when the status is
  not OK, through a last error that parses to the object \<open>flds\<close>. The sidecar reports it
  through a response body that parses to an object carrying \<^verbatim>\<open>status\<close>, \<^verbatim>\<open>allowed\<close>,
  \<^verbatim>\<open>outcome\<close>, \<^verbatim>\<open>event_id\<close> and the same \<^verbatim>\<open>rule_id\<close> and \<^verbatim>\<open>reason\<close> entries as \<open>flds\<close>
  (present in both or absent from both).
\<close>

definition outcome_name :: "int \<Rightarrow> string" where
  "outcome_name st =
     (if st = CHITIN_OK then ''allow''
      else if st = CHITIN_ERR_DENIED then ''deny'' else ''escalate'')"

definition native_reports ::
  "world \<Rightarrow> native_lib \<Rightarrow> ccall \<Rightarrow> int \<Rightarrow> 64 word \<Rightarrow> (string \<times> pyval) list \<Rightarrow> bool" where
  "native_reports w lib call st ev flds =
     (status (ccall_reply lib call) = st \<and> out_id (ccall_reply lib call) = ev \<and>
      (if st = CHITIN_OK then flds = []
       else (case fst (ffi_last_error lib) of
               Inl _ \<Rightarrow> False
             | Inr t \<Rightarrow> json_loads w t = Some (PDict flds))))"

definition rpc_reports ::
  "world \<Rightarrow> string \<Rightarrow> pyval \<Rightarrow> int \<Rightarrow> 64 word \<Rightarrow> (string \<times> pyval) list \<Rightarrow> bool" where
  "rpc_reports w base body st ev flds =
     (case fst (http_post w base ''/propose'' body) of
        Inr (PDict kvs) \<Rightarrow>
            map_of kvs ''status'' = Some (PInt st)
          \<and> map_of kvs ''allowed'' = Some (PBool (st = CHITIN_OK))
          \<and> map_of kvs ''outcome'' = Some (PStr (outcome_name st))
          \<and> map_of kvs ''event_id'' = Some (PInt (uint ev))
          \<and> map_of kvs ''rule_id'' = map_of flds ''rule_id''
          \<and> map_of kvs ''reason'' = map_of flds ''reason''
      | _ \<Rightarrow> False)"

text \<open>A sidecar that answers every request with HTTP 500 and the given body.\<close>

definition error_world :: "string \<Rightarrow> world" where
  "error_world err_body =
     scripted_world known_texts known_values
       (HTTPError ''HTTP Error 500: Internal Server Error'' err_body) None None"


text \<open>\<^verbatim>\<open>needle in haystack\<close> on strings.\<close>

fun contains :: "string \<Rightarrow> string \<Rightarrow> bool" where
  "contains needle [] = (needle = [])"
| "contains needle (c # cs) = (take (length needle) (c # cs) = needle \<or> contains needle cs)"


section \<open>Session lifecycle\<close>

lemma dispatch_closed:
  "backend e = ''none'' \<Longrightarrow> dispatch e f g = (Inl engine_closed_error, [])"
  by (simp add: dispatch_def ensure_open_def)

lemma engine_close_backend:
  "engine_close e = (Inr e', tr) \<Longrightarrow> backend e' = ''none''"
  by (auto simp: engine_close_def Let_def split: if_splits option.splits)

text \<open>
  C5. Once \<^verbatim>\<open>close\<close> has returned, each of the seven operations raises
  \<^verbatim>\<open>ChitinError(-1, "Engine is closed")\<close> and makes no call on the native library or on the
  sidecar, whatever the session was before (native, RPC or already closed) and whatever
  the world offers.
\<close>

theorem closed_session_rejects_every_operation:
  assumes "engine_close e = (Inr e', tr)"
  shows "engine_closed_error = ChitinError (PInt (- 1)) (PStr ''Engine is closed'')
    \<and> engine_ingest w e' content trust_level metadata = (Inl engine_closed_error, [])
    \<and> engine_propose w e' tool params agent_id input_sources = (Inl engine_closed_error, [])
    \<and> engine_record_result w e' tool_call_id output exit_code = (Inl engine_closed_error, [])
    \<and> engine_is_traced w e' ev label = (Inl engine_closed_error, [])
    \<and> engine_set_label w e' ev label = (Inl engine_closed_error, [])
    \<and> engine_explain w e' ev = (Inl engine_closed_error, [])
    \<and> engine_register_tool w e' name risk category = (Inl engine_closed_error, [])"
proof -
  have closed: "backend e' = ''none''"
    using assms by (rule engine_close_backend)
  show ?thesis
    unfolding engine_ingest_def engine_propose_def engine_record_result_def
      engine_is_traced_def engine_set_label_def engine_explain_def engine_register_tool_def
    by (simp add: dispatch_closed [OF closed] engine_closed_error_def)
qed

text \<open>
  Witness for C5: a native session is closed (one \<^verbatim>\<open>chitin_engine_free\<close> call) and then
  used; every operation is rejected without a call. Closing an RPC session leads to the
  same closed session.
\<close>

theorem closed_session_rejects_every_operation_witness:
  "engine_close (open_ffi_session idle_lib) = (Inr closed_session, [Native (C_engine_free 1)])
   \<and> engine_close open_http_session = (Inr closed_session, [])
   \<and> engine_ingest plain_world closed_session ''hi'' 2 None = (Inl engine_closed_error, [])
   \<and> engine_propose plain_world closed_session ''noop'' ''{}'' None (Some [1])
       = (Inl engine_closed_error, [])
   \<and> engine_record_result plain_world closed_session 1 ''ok'' 0 = (Inl engine_closed_error, [])
   \<and> engine_is_traced plain_world closed_session 1 ''pii'' = (Inl engine_closed_error, [])
   \<and> engine_set_label plain_world closed_session 1 ''pii'' = (Inl engine_closed_error, [])
   \<and> engine_explain plain_world closed_session 1 = (Inl engine_closed_error, [])
   \<and> engine_register_tool plain_world closed_session ''noop'' ''high'' None
       = (Inl engine_closed_error, [])"
proof -
  have c: "engine_close (open_ffi_session idle_lib)
             = (Inr closed_session, [Native (C_engine_free 1)])"
    by (simp add: engine_close_def open_ffi_session_def closed_session_def ffi_engine_free_def)
  have c': "engine_close open_http_session = (Inr closed_session, [])"
    by (simp add: engine_close_def open_http_session_def closed_session_def)
  show ?thesis
    using c c' closed_session_rejects_every_operation [OF c, of plain_world]
    by simp
qed

section \<open>The native adapter's propose\<close>

lemmas status_codes = CHITIN_OK_def CHITIN_ERR_INVALID_def CHITIN_ERR_DENIED_def
  CHITIN_ERR_ESCALATED_def CHITIN_ERR_INTERNAL_def CHITIN_ERR_NOT_FOUND_def

lemmas scripted_defs = scripted_lib_def scripted_world_def reply_status_def reply_buffer_def
  verdict_lib_def

lemmas text_defs = no_reason_error_def full_error_def deny_body_def denied_body_def
  unstatused_body_def known_texts_def


lemma raise_with_last_error_trace:
  "snd (raise_with_last_error lib st) = snd (ffi_last_error lib)"
  by (cases "ffi_last_error lib") (auto simp: raise_with_last_error_def split: sum.splits)


lemma verdict_lib_last_error:
  "utf8_valid t \<Longrightarrow>
     ffi_last_error (verdict_lib st t)
       = (Inr t, [Native C_last_error, Native (C_free_string t (length t))])"
  by (simp add: ffi_last_error_def scripted_defs decode_utf8_def string_at_def status_codes)

lemma verdict_lib_propose_reply:
  "ccall_reply (verdict_lib st t) (propose_call h tool params agent_id input_sources)
     = reply_status st 7"
  by (simp add: scripted_defs propose_call_def to_buf_def split: option.splits)


section \<open>The RPC exchange and the verdict path\<close>

text \<open>
  What the RPC adapter's propose returns when the exchange yields a JSON object: it needs
  an \<^verbatim>\<open>event_id\<close> entry that \<^verbatim>\<open>int()\<close> accepts and reads nothing else about status.
\<close>

lemma rpc_propose_on_object:
  assumes "fst (http_post w base ''/propose'' (propose_body tool params agent_id input_sources))
             = Inr (PDict kvs)"
  shows "fst (http_propose w base tool params agent_id input_sources)
           = (case map_of kvs ''event_id'' of
                None \<Rightarrow> Inl (KeyError ''event_id'')
              | Some v \<Rightarrow>
                  (case py_int w v of
                     Inl e \<Rightarrow> Inl e
                   | Inr n \<Rightarrow>
                       Inr \<lparr>allowed = py_bool (case map_of kvs ''allowed'' of
                                                 None \<Rightarrow> PBool False | Some a \<Rightarrow> a),
                             outcome = (case map_of kvs ''outcome'' of
                                          None \<Rightarrow> PStr ''deny'' | Some oc \<Rightarrow> oc),
                             event_id = n,
                             rule_id = (case map_of kvs ''rule_id'' of
                                          None \<Rightarrow> PNone | Some r \<Rightarrow> r),
                             reason = (case map_of kvs ''reason'' of
                                         None \<Rightarrow> PNone | Some r \<Rightarrow> r)\<rparr>))"
  using assms
  by (cases "http_post w base ''/propose'' (propose_body tool params agent_id input_sources)")
     (simp add: http_propose_def then_do_def Let_def split: option.split sum.split)

text \<open>
  \<^verbatim>\<open>_post\<close> on a non-2xx response: a body that does not decode or parse counts as the
  empty object, an object supplies \<^verbatim>\<open>status\<close> (default INTERNAL) and \<^verbatim>\<open>error\<close> (default
  \<^verbatim>\<open>str(e)\<close>), and any other JSON value makes \<^verbatim>\<open>payload.get\<close> raise.
\<close>

lemma http_post_error_response:
  assumes "exchange w base path body = HTTPError str_e err_body"
  shows "fst (http_post w base path body) =
      (case (case decode_utf8 err_body of None \<Rightarrow> None | Some t \<Rightarrow> json_loads w t) of
         None \<Rightarrow> Inl (ChitinError (PInt CHITIN_ERR_INTERNAL) (PStr str_e))
       | Some (PDict kvs) \<Rightarrow>
           Inl (ChitinError (case map_of kvs ''status'' of
                               None \<Rightarrow> PInt CHITIN_ERR_INTERNAL | Some s \<Rightarrow> s)
                            (case map_of kvs ''error'' of None \<Rightarrow> PStr str_e | Some m \<Rightarrow> m))
       | Some _ \<Rightarrow> Inl AttributeError)"
proof (cases "case decode_utf8 err_body of None \<Rightarrow> None | Some t \<Rightarrow> json_loads w t")
  case None
  then show ?thesis
    using assms by (auto simp: http_post_def then_do_def Let_def split: option.splits)
next
  case (Some v)
  then show ?thesis
    using assms by (cases v) (auto simp: http_post_def then_do_def Let_def split: option.splits)
qed

lemma http_post_connection_failure:
  "exchange w base path body = URLError rsn \<Longrightarrow>
     fst (http_post w base path body) = Inl (ChitinError (PInt CHITIN_ERR_INTERNAL) (PStr rsn))"
  by (simp add: http_post_def Let_def)

text \<open>
  C7, at the input where the code departs from it. The sidecar answers HTTP 500 with
  the body \<^verbatim>\<open>[]\<close>, which is valid JSON but not an object. \<^verbatim>\<open>_post\<close>, and with it
  \<^verbatim>\<open>ingest\<close>, raises \<^verbatim>\<open>AttributeError\<close>; no \<^verbatim>\<open>ChitinError\<close> with status INTERNAL is built.
\<close>

theorem non_object_error_body_raises_attribute_error:
  "exchange (error_world ''[]'') sidecar_base ''/ingest'' (ingest_body ''hi'' 2 None)
     = HTTPError ''HTTP Error 500: Internal Server Error'' ''[]''
   \<and> json_loads (error_world ''[]'') ''[]'' = Some (PList [])
   \<and> fst (http_post (error_world ''[]'') sidecar_base ''/ingest'' (ingest_body ''hi'' 2 None))
       = Inl AttributeError
   \<and> fst (http_ingest (error_world ''[]'') sidecar_base ''hi'' 2 None) = Inl AttributeError"
  by (simp add: http_ingest_def http_post_def exchange_def error_world_def scripted_world_def
        text_defs decode_utf8_def byte_in_def then_do_def Let_def)

text \<open>
  C2, at the input where the code departs from it. On an open native session the engine
  answers \<^verbatim>\<open>chitin_propose\<close> with DENIED and its last-error buffer is the single byte
  0xFF, which is not UTF-8. \<^verbatim>\<open>propose\<close> frees the buffer and raises
  \<^verbatim>\<open>UnicodeDecodeError\<close>: the fetch is outside the \<^verbatim>\<open>try\<close> that guards the parsing.
\<close>

theorem propose_raises_on_deny_with_undecodable_error:
  "status (ccall_reply (verdict_lib CHITIN_ERR_DENIED [CHR 0xFF])
             (propose_call 1 ''noop'' ''{}'' None (Some [1]))) = CHITIN_ERR_DENIED
   \<and> decode_utf8 [CHR 0xFF] = None
   \<and> engine_propose verdict_world (open_ffi_session (verdict_lib CHITIN_ERR_DENIED [CHR 0xFF]))
        ''noop'' ''{}'' None (Some [1])
       = (Inl UnicodeDecodeError,
          [Native (propose_call 1 ''noop'' ''{}'' None (Some [1])), Native C_last_error,
           Native (C_free_string [CHR 0xFF] 1)])"
  by (simp add: engine_propose_def dispatch_def ensure_open_def open_ffi_session_def
      ffi_propose_def scripted_defs
      propose_call_def to_buf_def ffi_last_error_def decode_utf8_def string_at_def byte_in_def
      status_codes)

text \<open>
  C1, at the input where the code departs from it. Both backends report the same
  denial: status DENIED, event id 7, rule \<^verbatim>\<open>r1\<close>, no reason. The native adapter returns
  \<open>reason = ""\<close>, the RPC adapter \<open>reason = None\<close>; the other four fields agree.
\<close>

theorem transports_disagree_on_absent_reason:
  "native_reports verdict_world (verdict_lib CHITIN_ERR_DENIED no_reason_error)
      (propose_call 1 ''noop'' ''{}'' None (Some [1])) CHITIN_ERR_DENIED 7 [(''rule_id'', PStr ''r1'')]
   \<and> rpc_reports verdict_world sidecar_base (propose_body ''noop'' ''{}'' None (Some [1]))
      CHITIN_ERR_DENIED 7 [(''rule_id'', PStr ''r1'')]
   \<and> fst (ffi_propose verdict_world (verdict_lib CHITIN_ERR_DENIED no_reason_error) 1
             ''noop'' ''{}'' None (Some [1]))
       = Inr \<lparr>allowed = False, outcome = PStr ''deny'', event_id = 7, rule_id = PStr ''r1'',
              reason = PStr []\<rparr>
   \<and> fst (http_propose verdict_world sidecar_base ''noop'' ''{}'' None (Some [1]))
       = Inr \<lparr>allowed = False, outcome = PStr ''deny'', event_id = 7, rule_id = PStr ''r1'',
              reason = PNone\<rparr>"
proof -
  have v: "utf8_valid no_reason_error" "utf8_valid deny_body"
    by (simp_all add: text_defs byte_in_def)
  note le = verdict_lib_last_error [OF v(1)]
  have p: "json_loads verdict_world no_reason_error = Some (PDict [(''rule_id'', PStr ''r1'')])"
    by (simp add: verdict_world_def scripted_world_def text_defs)
  have post: "fst (http_post verdict_world sidecar_base ''/propose''
                     (propose_body ''noop'' ''{}'' None (Some [1])))
       = Inr (PDict [(''status'', PInt (- 2)), (''allowed'', PBool False),
                         (''outcome'', PStr ''deny''), (''event_id'', PInt 7),
                         (''rule_id'', PStr ''r1'')])"
    using v(2)
    by (simp add: http_post_def exchange_def verdict_world_def scripted_world_def Let_def
          decode_utf8_def known_texts_def)
       (simp add: text_defs)
  have n: "native_reports verdict_world (verdict_lib CHITIN_ERR_DENIED no_reason_error)
      (propose_call 1 ''noop'' ''{}'' None (Some [1])) CHITIN_ERR_DENIED 7 [(''rule_id'', PStr ''r1'')]"
    by (simp add: native_reports_def verdict_lib_propose_reply reply_status_def le p status_codes)
  have r: "rpc_reports verdict_world sidecar_base (propose_body ''noop'' ''{}'' None (Some [1]))
      CHITIN_ERR_DENIED 7 [(''rule_id'', PStr ''r1'')]"
    by (simp add: rpc_reports_def post outcome_name_def status_codes)
  have f: "fst (ffi_propose verdict_world (verdict_lib CHITIN_ERR_DENIED no_reason_error) 1
             ''noop'' ''{}'' None (Some [1]))
       = Inr \<lparr>allowed = False, outcome = PStr ''deny'', event_id = 7, rule_id = PStr ''r1'',
              reason = PStr []\<rparr>"
    by (simp add: ffi_propose_def verdict_lib_propose_reply reply_status_def le p status_codes Let_def)
  have h: "fst (http_propose verdict_world sidecar_base ''noop'' ''{}'' None (Some [1]))
       = Inr \<lparr>allowed = False, outcome = PStr ''deny'', event_id = 7, rule_id = PStr ''r1'',
              reason = PNone\<rparr>"
    by (simp add: rpc_propose_on_object [OF post])
  show ?thesis
    using n r f h by blast
qed


text \<open>
  What each adapter returns when its backend reports a verdict in the sense of
  \<open>native_reports\<close> and \<open>rpc_reports\<close>.
\<close>

lemma native_propose_on_reported_verdict:
  assumes n: "native_reports w lib (propose_call h tool params agent_id input_sources) st ev flds"
      and st: "st = CHITIN_OK \<or> st = CHITIN_ERR_DENIED \<or> st = CHITIN_ERR_ESCALATED"
  shows "fst (ffi_propose w lib h tool params agent_id input_sources)
           = Inr \<lparr>allowed = (st = CHITIN_OK), outcome = PStr (outcome_name st),
                  event_id = uint ev,
                  rule_id = (case map_of flds ''rule_id'' of None \<Rightarrow> PNone | Some v \<Rightarrow> v),
                  reason = (case map_of flds ''reason'' of
                              None \<Rightarrow> if st = CHITIN_OK then PNone else PStr []
                            | Some v \<Rightarrow> v)\<rparr>"
proof -
  have rep: "status (ccall_reply lib (propose_call h tool params agent_id input_sources)) = st"
      "out_id (ccall_reply lib (propose_call h tool params agent_id input_sources)) = ev"
    using n by (simp_all add: native_reports_def)
  show ?thesis
  proof (cases "st = CHITIN_OK")
    case True
    then have "flds = []"
      using n by (simp add: native_reports_def)
    then show ?thesis
      using True rep by (simp add: ffi_propose_def Let_def outcome_name_def)
  next
    case False
    then obtain t tr where le: "ffi_last_error lib = (Inr t, tr)"
        and p: "json_loads w t = Some (PDict flds)"
      using n by (cases "ffi_last_error lib") (auto simp: native_reports_def split: sum.splits)
    show ?thesis
      using False st rep le p
      by (auto simp: ffi_propose_def Let_def outcome_name_def status_codes split: option.splits)
  qed
qed

lemma rpc_propose_on_reported_verdict:
  assumes r: "rpc_reports w base (propose_body tool params agent_id input_sources) st ev flds"
  shows "fst (http_propose w base tool params agent_id input_sources)
           = Inr \<lparr>allowed = (st = CHITIN_OK), outcome = PStr (outcome_name st),
                  event_id = uint ev,
                  rule_id = (case map_of flds ''rule_id'' of None \<Rightarrow> PNone | Some v \<Rightarrow> v),
                  reason = (case map_of flds ''reason'' of None \<Rightarrow> PNone | Some v \<Rightarrow> v)\<rparr>"
proof -
  obtain kvs where post:
      "fst (http_post w base ''/propose'' (propose_body tool params agent_id input_sources))
         = Inr (PDict kvs)"
    and kv: "map_of kvs ''allowed'' = Some (PBool (st = CHITIN_OK))"
      "map_of kvs ''outcome'' = Some (PStr (outcome_name st))"
      "map_of kvs ''event_id'' = Some (PInt (uint ev))"
      "map_of kvs ''rule_id'' = map_of flds ''rule_id''"
      "map_of kvs ''reason'' = map_of flds ''reason''"
    using r by (auto simp: rpc_reports_def split: sum.splits pyval.splits)
  show ?thesis
    by (simp add: rpc_propose_on_object [OF post] kv)
qed

text \<open>
  The extent of the disagreement: whenever both backends report the same verdict, both
  adapters return a Decision, the two agree on \<open>allowed\<close>, \<open>outcome\<close>, \<open>event_id\<close> and
  \<open>rule_id\<close>, and they agree on \<open>reason\<close> unless a denial or escalation carries no
  \<^verbatim>\<open>reason\<close> entry.
\<close>

lemma transports_agree_up_to_reason_default:
  assumes n: "native_reports w lib (propose_call h tool params agent_id input_sources) st ev flds"
      and r: "rpc_reports w base (propose_body tool params agent_id input_sources) st ev flds"
      and st: "st = CHITIN_OK \<or> st = CHITIN_ERR_DENIED \<or> st = CHITIN_ERR_ESCALATED"
  shows "\<exists>d1 d2. fst (ffi_propose w lib h tool params agent_id input_sources) = Inr d1
           \<and> fst (http_propose w base tool params agent_id input_sources) = Inr d2
           \<and> allowed d1 = allowed d2 \<and> outcome d1 = outcome d2
           \<and> event_id d1 = event_id d2 \<and> rule_id d1 = rule_id d2
           \<and> reason d1 = (case map_of flds ''reason'' of
                             None \<Rightarrow> if st = CHITIN_OK then PNone else PStr []
                           | Some v \<Rightarrow> v)
           \<and> reason d2 = (case map_of flds ''reason'' of None \<Rightarrow> PNone | Some v \<Rightarrow> v)"
  by (simp add: native_propose_on_reported_verdict [OF n st]
        rpc_propose_on_reported_verdict [OF r])

text \<open>
  Seen from the session: on an open session of either transport, a reported verdict
  (allow, deny or escalate) comes back as a Decision.
\<close>

lemma propose_returns_decision_on_reported_verdict:
  assumes st: "st = CHITIN_OK \<or> st = CHITIN_ERR_DENIED \<or> st = CHITIN_ERR_ESCALATED"
  shows "native_reports w lib (propose_call h tool params agent_id input_sources) st ev flds
           \<Longrightarrow> \<exists>d. fst (engine_propose w
                          \<lparr>backend = ''ffi'', ffi = Some lib, handle = Some h, http = None\<rparr>
                          tool params agent_id input_sources) = Inr d"
    and "rpc_reports w base (propose_body tool params agent_id input_sources) st ev flds
           \<Longrightarrow> \<exists>d. fst (engine_propose w
                          \<lparr>backend = ''http'', ffi = None, handle = None, http = Some base\<rparr>
                          tool params agent_id input_sources) = Inr d"
  by (simp_all add: engine_propose_def dispatch_def ensure_open_def
        native_propose_on_reported_verdict [OF _ st] rpc_propose_on_reported_verdict)

section \<open>Error statuses outside propose\<close>


lemma http_post_result:
  "fst (http_post w base path body) = Inr out \<Longrightarrow>
     http_post w base path body = (Inr out, [HttpPost (base @ path) (json_dumps w body)])"
  by (cases "http_post w base path body") (auto simp: http_post_def Let_def)

lemma check_status_on_object:
  "check_status (PDict kvs) dflt =
     (case map_of kvs ''status'' of
        None \<Rightarrow> Inr ()
      | Some st \<Rightarrow>
          if py_eq_int st CHITIN_OK then Inr ()
          else Inl (ChitinError st (case map_of kvs ''error'' of None \<Rightarrow> PStr dflt | Some m \<Rightarrow> m)))"
  by (simp add: check_status_def then_do_def CHITIN_OK_def split: option.split)





lemma response_world_post:
  "st \<noteq> 204 \<Longrightarrow> raw \<noteq> [] \<Longrightarrow> utf8_valid raw \<Longrightarrow> map_of known_texts raw = Some v \<Longrightarrow>
     fst (http_post (response_world st raw) base path body) = Inr v"
  by (simp add: http_post_def exchange_def response_world_def scripted_world_def Let_def
        decode_utf8_def)

lemma response_world_empty_post:
  "st = 204 \<or> raw = [] \<Longrightarrow>
     fst (http_post (response_world st raw) base path body) = Inr (PDict [])"
  by (auto simp: http_post_def exchange_def response_world_def scripted_world_def Let_def)



section \<open>Session construction\<close>


lemma try_ffi_load_failure:
  "cdll w = None \<Longrightarrow> try_ffi w config_path = (Inl (OSError load_lib_error_message), [])"
  by (simp add: try_ffi_def load_ffi_def load_lib_def)

text \<open>
  C6, as the code has it. When the native attempt raises an exception the constructor
  catches (the \<^verbatim>\<open>OSError\<close> of a failed load, the \<^verbatim>\<open>ChitinError\<close> of a failed
  \<^verbatim>\<open>chitin_engine_new\<close>) and \<^verbatim>\<open>CHITIN_SIDECAR_URL\<close> is unset or empty, construction raises
  \<^verbatim>\<open>ChitinError(-1, m)\<close> where \<open>m\<close> says that the native library failed to load and names
  \<^verbatim>\<open>CHITIN_SIDECAR_URL\<close>.
\<close>

theorem construction_failure_names_only_the_remote_target:
  assumes "fst (try_ffi w config_path) = Inl e"
      and "caught_by_fallback e"
      and "sidecar_url w = None \<or> sidecar_url w = Some []"
  shows "fst (engine_init w config_path)
           = Inl (ChitinError (PInt (- 1)) (PStr engine_unavailable_message))
       \<and> contains ''native library failed to load'' engine_unavailable_message
       \<and> contains ''CHITIN_SIDECAR_URL'' engine_unavailable_message"
proof -
  obtain tr where t: "try_ffi w config_path = (Inl e, tr)"
    using assms(1) by (cases "try_ffi w config_path") auto
  have "fst (engine_init w config_path)
          = Inl (ChitinError (PInt (- 1)) (PStr engine_unavailable_message))"
    using assms(2,3) by (auto simp: engine_init_def t)
  moreover have "contains ''native library failed to load'' engine_unavailable_message"
    by (simp add: engine_unavailable_message_def)
  moreover have "contains ''CHITIN_SIDECAR_URL'' engine_unavailable_message"
    by (simp add: engine_unavailable_message_def)
  ultimately show ?thesis by simp
qed

text \<open>
  Counterexample to C6 as stated: with no loadable library and no sidecar URL the
  constructor's message names neither \<^verbatim>\<open>CHITIN_LIB_PATH\<close> nor any path. The loader's own
  message does name the override, but it travels in the \<^verbatim>\<open>OSError\<close> that the constructor
  catches and drops.
\<close>

theorem construction_failure_message_omits_the_library_path:
  "cdll plain_world = None \<and> sidecar_url plain_world = None
   \<and> engine_init plain_world None
       = (Inl (ChitinError (PInt (- 1)) (PStr engine_unavailable_message)), [])
   \<and> \<not> contains ''CHITIN_LIB_PATH'' engine_unavailable_message
   \<and> \<not> contains ''path'' engine_unavailable_message
   \<and> contains ''CHITIN_LIB_PATH'' load_lib_error_message"
proof -
  have w: "cdll plain_world = None" "sidecar_url plain_world = None"
    by (simp_all add: plain_world_def scripted_world_def)
  have i: "engine_init plain_world None
       = (Inl (ChitinError (PInt (- 1)) (PStr engine_unavailable_message)), [])"
    by (simp add: engine_init_def try_ffi_load_failure w)
  have m: "\<not> contains ''CHITIN_LIB_PATH'' engine_unavailable_message"
      "\<not> contains ''path'' engine_unavailable_message"
    by (simp_all add: engine_unavailable_message_def)
  have l: "contains ''CHITIN_LIB_PATH'' load_lib_error_message"
    by (simp add: load_lib_error_message_def)
  show ?thesis
    using w i m l by simp
qed

text \<open>
  Witness for the amended C6: the world with no loadable library and no sidecar URL.
\<close>

theorem construction_failure_names_only_the_remote_target_witness:
  "fst (try_ffi plain_world None) = Inl (OSError load_lib_error_message)
   \<and> caught_by_fallback (OSError load_lib_error_message)
   \<and> sidecar_url plain_world = None
   \<and> fst (engine_init plain_world None)
       = Inl (ChitinError (PInt (- 1)) (PStr engine_unavailable_message))
   \<and> contains ''native library failed to load'' engine_unavailable_message
   \<and> contains ''CHITIN_SIDECAR_URL'' engine_unavailable_message"
proof -
  have w: "cdll plain_world = None" "sidecar_url plain_world = None"
    by (simp_all add: plain_world_def scripted_world_def)
  have t: "fst (try_ffi plain_world None) = Inl (OSError load_lib_error_message)"
    by (simp add: try_ffi_load_failure w)
  have c: "caught_by_fallback (OSError load_lib_error_message)"
    by simp
  have u: "sidecar_url plain_world = None \<or> sidecar_url plain_world = Some []"
    by (simp add: w)
  show ?thesis
    using construction_failure_names_only_the_remote_target [OF t c u] t c w by simp
qed

section \<open>Release of engine buffers\<close>




section \<open>Empty response bodies\<close>


lemma http_post_empty_response:
  "exchange w base path body = Response st raw \<Longrightarrow> st = 204 \<or> raw = [] \<Longrightarrow>
     http_post w base path body = (Inr (PDict []), [HttpPost (base @ path) (json_dumps w body)])"
  by (simp add: http_post_def Let_def)

text \<open>
  C8, as the code has it. When the sidecar answers with status 204 or with an empty body,
  \<^verbatim>\<open>_post\<close> returns the empty object. \<^verbatim>\<open>register_tool\<close> then succeeds and \<^verbatim>\<open>explain\<close> returns
  the empty \<^verbatim>\<open>ExplainResult\<close>; \<^verbatim>\<open>ingest\<close>, \<^verbatim>\<open>propose\<close> and \<^verbatim>\<open>record_result\<close> raise
  \<^verbatim>\<open>KeyError\<close> for the missing \<^verbatim>\<open>event_id\<close>, and \<^verbatim>\<open>is_traced\<close> raises
  \<^verbatim>\<open>ChitinError(INTERNAL, "is_traced failed")\<close>.
\<close>

theorem empty_body_accepted_by_register_tool_and_explain:
  assumes e: "st = 204 \<or> raw = []"
  shows
    "(exchange w base ''/register_tool'' (register_tool_body name risk category) = Response st raw
        \<longrightarrow> fst (http_register_tool w base name risk category) = Inr ())
   \<and> (exchange w base ''/explain'' (explain_body ev) = Response st raw
        \<longrightarrow> fst (http_explain w base ev)
              = Inr \<lparr>explain_text = PStr [], trace_chain = PList []\<rparr>)
   \<and> (exchange w base ''/ingest'' (ingest_body content trust_level metadata) = Response st raw
        \<longrightarrow> fst (http_ingest w base content trust_level metadata) = Inl (KeyError ''event_id''))
   \<and> (exchange w base ''/propose'' (propose_body tool params agent_id input_sources)
          = Response st raw
        \<longrightarrow> fst (http_propose w base tool params agent_id input_sources)
              = Inl (KeyError ''event_id''))
   \<and> (exchange w base ''/record_result'' (record_result_body tool_call_id out_text exit_code)
          = Response st raw
        \<longrightarrow> fst (http_record_result w base tool_call_id out_text exit_code)
              = Inl (KeyError ''event_id''))
   \<and> (exchange w base ''/is_traced'' (is_traced_body ev label) = Response st raw
        \<longrightarrow> fst (http_is_traced w base ev label)
              = Inl (ChitinError (PInt CHITIN_ERR_INTERNAL) (PStr ''is_traced failed'')))"
proof (intro conjI impI)
  assume "exchange w base ''/register_tool'' (register_tool_body name risk category)
            = Response st raw"
  then show "fst (http_register_tool w base name risk category) = Inr ()"
    by (simp add: http_register_tool_def http_post_empty_response [OF _ e] then_do_def)
next
  assume "exchange w base ''/explain'' (explain_body ev) = Response st raw"
  then show "fst (http_explain w base ev) = Inr \<lparr>explain_text = PStr [], trace_chain = PList []\<rparr>"
    by (simp add: http_explain_def http_post_empty_response [OF _ e] then_do_def
          check_status_on_object py_or_def)
next
  assume "exchange w base ''/ingest'' (ingest_body content trust_level metadata) = Response st raw"
  then show "fst (http_ingest w base content trust_level metadata) = Inl (KeyError ''event_id'')"
    by (simp add: http_ingest_def http_post_empty_response [OF _ e] then_do_def
          check_status_on_object)
next
  assume "exchange w base ''/propose'' (propose_body tool params agent_id input_sources)
            = Response st raw"
  then show "fst (http_propose w base tool params agent_id input_sources)
               = Inl (KeyError ''event_id'')"
    by (simp add: http_propose_def http_post_empty_response [OF _ e] then_do_def)
next
  assume "exchange w base ''/record_result'' (record_result_body tool_call_id out_text exit_code)
            = Response st raw"
  then show "fst (http_record_result w base tool_call_id out_text exit_code)
               = Inl (KeyError ''event_id'')"
    by (simp add: http_record_result_def http_post_empty_response [OF _ e] then_do_def
          check_status_on_object)
next
  assume "exchange w base ''/is_traced'' (is_traced_body ev label) = Response st raw"
  then show "fst (http_is_traced w base ev label)
               = Inl (ChitinError (PInt CHITIN_ERR_INTERNAL) (PStr ''is_traced failed''))"
    by (simp add: http_is_traced_def http_post_empty_response [OF _ e] then_do_def)
qed

lemma response_world_exchange:
  "exchange (response_world st raw) base path body = Response st raw"
  by (simp add: exchange_def response_world_def scripted_world_def)

text \<open>
  Counterexample to C8 as stated: the sidecar answers \<^verbatim>\<open>/explain\<close> with status 200 and an
  empty body, and \<^verbatim>\<open>explain\<close> returns a value.
\<close>

theorem explain_accepts_an_empty_body:
  "exchange (response_world 200 []) sidecar_base ''/explain'' (explain_body 7) = Response 200 []
   \<and> fst (http_explain (response_world 200 []) sidecar_base 7)
       = Inr \<lparr>explain_text = PStr [], trace_chain = PList []\<rparr>"
  by (simp add: response_world_exchange http_explain_def http_post_empty_response
        [OF response_world_exchange] then_do_def check_status_on_object py_or_def)

text \<open>
  Witness for the amended C8: a sidecar that answers every request with 204 and no body.
\<close>

theorem empty_body_accepted_by_register_tool_and_explain_witness:
  "fst (http_register_tool (response_world 204 []) sidecar_base ''noop'' ''high'' None) = Inr ()
   \<and> fst (http_explain (response_world 204 []) sidecar_base 7)
       = Inr \<lparr>explain_text = PStr [], trace_chain = PList []\<rparr>
   \<and> fst (http_ingest (response_world 204 []) sidecar_base ''hi'' 2 None)
       = Inl (KeyError ''event_id'')
   \<and> fst (http_propose (response_world 204 []) sidecar_base ''noop'' ''{}'' None (Some [1]))
       = Inl (KeyError ''event_id'')
   \<and> fst (http_record_result (response_world 204 []) sidecar_base 7 ''ok'' 0)
       = Inl (KeyError ''event_id'')
   \<and> fst (http_is_traced (response_world 204 []) sidecar_base 7 ''pii'')
       = Inl (ChitinError (PInt (- 4)) (PStr ''is_traced failed''))"
proof -
  have e: "(204 :: int) = 204 \<or> ([] :: string) = []"
    by simp
  note inst = empty_body_accepted_by_register_tool_and_explain [OF e,
      where w = "response_world 204 []" and base = sidecar_base and name = "''noop''"
        and risk = "''high''" and category = None and ev = 7 and content = "''hi''"
        and trust_level = 2 and metadata = None and tool = "''noop''" and params = "''{}''"
        and agent_id = None and input_sources = "Some [1]" and tool_call_id = 7
        and out_text = "''ok''" and exit_code = 0 and label = "''pii''"]
  show ?thesis
    using inst by (simp add: response_world_exchange CHITIN_ERR_INTERNAL_def)
qed

section \<open>The status field of a successful response\<close>

text \<open>
  C10. Let the exchange be a successful one whose body is the JSON object \<open>kvs\<close> (the
  empty object for an empty body). If \<open>kvs\<close> has no \<^verbatim>\<open>status\<close> entry, or one that does not
  compare equal to 0, \<^verbatim>\<open>is_traced\<close> raises \<^verbatim>\<open>ChitinError\<close> with the body's status, INTERNAL
  when there is none, and the body's \<^verbatim>\<open>error\<close> entry or "is_traced failed". If \<open>kvs\<close> has
  no \<^verbatim>\<open>status\<close> entry, \<^verbatim>\<open>ingest\<close> and \<^verbatim>\<open>record_result\<close> go on to read \<^verbatim>\<open>event_id\<close>
  (converting it with \<^verbatim>\<open>int\<close>, or raising \<^verbatim>\<open>KeyError\<close> when it is missing) and \<^verbatim>\<open>explain\<close>
  returns the result built from \<^verbatim>\<open>text\<close> and \<^verbatim>\<open>trace_chain\<close>.
\<close>

theorem is_traced_requires_an_ok_status_field:
  "(fst (http_post w base ''/is_traced'' (is_traced_body ev label)) = Inr (PDict kvs)
      \<and> (case map_of kvs ''status'' of None \<Rightarrow> True | Some v \<Rightarrow> \<not> py_eq_int v CHITIN_OK)
      \<longrightarrow> fst (http_is_traced w base ev label)
            = Inl (ChitinError
                     (case map_of kvs ''status'' of
                        None \<Rightarrow> PInt CHITIN_ERR_INTERNAL | Some v \<Rightarrow> v)
                     (case map_of kvs ''error'' of
                        None \<Rightarrow> PStr ''is_traced failed'' | Some m \<Rightarrow> m)))
   \<and> (fst (http_post w base ''/ingest'' (ingest_body content trust_level metadata))
          = Inr (PDict kvs) \<and> map_of kvs ''status'' = None
      \<longrightarrow> fst (http_ingest w base content trust_level metadata)
            = (case map_of kvs ''event_id'' of
                 None \<Rightarrow> Inl (KeyError ''event_id'') | Some v \<Rightarrow> py_int w v))
   \<and> (fst (http_post w base ''/record_result'' (record_result_body tool_call_id out_text exit_code))
          = Inr (PDict kvs) \<and> map_of kvs ''status'' = None
      \<longrightarrow> fst (http_record_result w base tool_call_id out_text exit_code)
            = (case map_of kvs ''event_id'' of
                 None \<Rightarrow> Inl (KeyError ''event_id'') | Some v \<Rightarrow> py_int w v))
   \<and> (fst (http_post w base ''/explain'' (explain_body ev)) = Inr (PDict kvs)
          \<and> map_of kvs ''status'' = None
      \<longrightarrow> fst (http_explain w base ev)
            = Inr \<lparr>explain_text =
                     py_or (case map_of kvs ''text'' of None \<Rightarrow> PNone | Some v \<Rightarrow> v) (PStr []),
                   trace_chain =
                     py_or (case map_of kvs ''trace_chain'' of None \<Rightarrow> PNone | Some v \<Rightarrow> v)
                       (PList [])\<rparr>)"
proof (intro conjI impI)
  assume "fst (http_post w base ''/is_traced'' (is_traced_body ev label)) = Inr (PDict kvs)
      \<and> (case map_of kvs ''status'' of None \<Rightarrow> True | Some v \<Rightarrow> \<not> py_eq_int v CHITIN_OK)"
  then show "fst (http_is_traced w base ev label)
            = Inl (ChitinError
                     (case map_of kvs ''status'' of
                        None \<Rightarrow> PInt CHITIN_ERR_INTERNAL | Some v \<Rightarrow> v)
                     (case map_of kvs ''error'' of
                        None \<Rightarrow> PStr ''is_traced failed'' | Some m \<Rightarrow> m))"
    by (auto simp: http_is_traced_def Let_def then_do_def CHITIN_OK_def
          dest!: http_post_result split: option.splits)
next
  assume "fst (http_post w base ''/ingest'' (ingest_body content trust_level metadata))
          = Inr (PDict kvs) \<and> map_of kvs ''status'' = None"
  then show "fst (http_ingest w base content trust_level metadata)
            = (case map_of kvs ''event_id'' of
                 None \<Rightarrow> Inl (KeyError ''event_id'') | Some v \<Rightarrow> py_int w v)"
    by (auto simp: http_ingest_def Let_def then_do_def check_status_on_object
          dest!: http_post_result split: option.splits)
next
  assume "fst (http_post w base ''/record_result''
                 (record_result_body tool_call_id out_text exit_code))
          = Inr (PDict kvs) \<and> map_of kvs ''status'' = None"
  then show "fst (http_record_result w base tool_call_id out_text exit_code)
            = (case map_of kvs ''event_id'' of
                 None \<Rightarrow> Inl (KeyError ''event_id'') | Some v \<Rightarrow> py_int w v)"
    by (auto simp: http_record_result_def Let_def then_do_def check_status_on_object
          dest!: http_post_result split: option.splits)
next
  assume "fst (http_post w base ''/explain'' (explain_body ev)) = Inr (PDict kvs)
          \<and> map_of kvs ''status'' = None"
  then show "fst (http_explain w base ev)
            = Inr \<lparr>explain_text =
                     py_or (case map_of kvs ''text'' of None \<Rightarrow> PNone | Some v \<Rightarrow> v) (PStr []),
                   trace_chain =
                     py_or (case map_of kvs ''trace_chain'' of None \<Rightarrow> PNone | Some v \<Rightarrow> v)
                       (PList [])\<rparr>"
    by (auto simp: http_explain_def Let_def then_do_def check_status_on_object
          dest!: http_post_result split: option.splits)
qed

text \<open>
  Witness for C10: one body without a status entry, answered to all four operations.
\<close>

theorem is_traced_requires_an_ok_status_field_witness:
  "fst (http_is_traced (response_world 200 unstatused_body) sidecar_base 7 ''pii'')
     = Inl (ChitinError (PInt (- 4)) (PStr ''is_traced failed''))
   \<and> fst (http_ingest (response_world 200 unstatused_body) sidecar_base ''hi'' 2 None) = Inr 5
   \<and> fst (http_record_result (response_world 200 unstatused_body) sidecar_base 7 ''ok'' 0) = Inr 5
   \<and> fst (http_explain (response_world 200 unstatused_body) sidecar_base 7)
       = Inr \<lparr>explain_text = PStr ''t'', trace_chain = PList []\<rparr>"
proof -
  have post: "fst (http_post (response_world 200 unstatused_body) sidecar_base path body)
                = Inr (PDict [(''event_id'', PInt 5), (''traced'', PBool True),
                              (''text'', PStr ''t'')])"
    for path body
    by (rule response_world_post) (simp_all add: text_defs byte_in_def)
  note inst = is_traced_requires_an_ok_status_field
      [where w = "response_world 200 unstatused_body" and base = sidecar_base and ev = 7
         and label = "''pii''" and content = "''hi''" and trust_level = 2 and metadata = None
         and tool_call_id = 7 and out_text = "''ok''" and exit_code = 0
         and kvs = "[(''event_id'', PInt 5), (''traced'', PBool True), (''text'', PStr ''t'')]"]
  show ?thesis
    using inst by (simp add: post py_or_def CHITIN_ERR_INTERNAL_def)
qed

text \<open>
  \<^verbatim>\<open>is_traced\<close> returns a value only when the exchange yields an object whose status
  entry compares equal to 0: every other successful response makes it raise.
\<close>

lemma is_traced_returns_only_on_ok_status:
  assumes "fst (http_is_traced w base ev label) = Inr b"
  shows "\<exists>kvs v. fst (http_post w base ''/is_traced'' (is_traced_body ev label)) = Inr (PDict kvs)
           \<and> map_of kvs ''status'' = Some v \<and> py_eq_int v CHITIN_OK"
proof (cases "http_post w base ''/is_traced'' (is_traced_body ev label)")
  case (Pair res tr)
  show ?thesis
  proof (cases res)
    case (Inl e)
    then show ?thesis
      using assms Pair by (simp add: http_is_traced_def then_do_def)
  next
    case (Inr out)
    then show ?thesis
      using assms Pair
      by (cases out)
         (auto simp: http_is_traced_def then_do_def CHITIN_OK_def
            split: option.splits if_splits)
  qed
qed

end
